theory Spec2Isabelle
  imports Main
begin

section \<open>The route guards of App.jsx\<close>

text \<open>
  App.jsx holds two guard components, \<open>ProtectedRoute\<close> and \<open>PublicRoute\<close>, and the route
  table of \<open>App\<close>. Each guard owns two hook cells (\<open>isAuthenticated\<close>, initially \<open>null\<close>, and
  \<open>isLoading\<close>, initially \<open>true\<close>), starts one asynchronous probe
  \<open>firebase.auth.isAuthenticated()\<close> and one subscription \<open>firebase.auth.onAuthStateChanged\<close>
  when it is mounted, and calls the returned \<open>unsubscribe\<close> when it is unmounted.

  The identity provider is not part of the file: its probe is taken to settle with a boolean
  or with an error, and its notifications to carry an identity token or \<open>null\<close>. React and
  the routing library are not part of it either; what the components rely on of them is
  said where it is modelled.
\<close>

subsection \<open>Values and elements\<close>

type_synonym js_error = string
type_synonym identity = string

datatype page = Authentication | Home | Onboarding | ManagerDashboard | SupervisorDashboard

text \<open>
  What a component returns. \<open>Spinner caption\<close> is the centred spinner with its caption,
  \<open>Navigate to replace\<close> is \<open><Navigate to=... replace />\<close>.
\<close>

datatype element =
    Page page
  | Layout element
  | ProtectedRoute element
  | PublicRoute element
  | Navigate string bool
  | Spinner string

subsection \<open>One guard instance\<close>

datatype phase = Fresh | Mounted | Unmounted

datatype probe_status = Idle | InFlight | Settled

datatype setter_call = SetIsAuthenticated "bool option" | SetIsLoading bool

text \<open>
  The two hook cells, and what the effect of the instance has done so far: whether it is
  mounted, whether the probe is still awaited, whether the handler is registered with the
  provider, how often \<open>unsubscribe\<close> was called, what was passed to \<open>console.error\<close>, which
  errors left \<open>checkAuth\<close> uncaught, and every call of a setter in order.

  A cell (\<open>isAuthenticated\<close>, \<open>isLoading\<close>) holds the last value handed to its setter, and
  \<open>setter_calls\<close> records the calls the code makes. \<open>committed\<close> is the state React holds
  for the instance, as the pair of the two values: React applies an update to an instance
  that is mounted and drops an update addressed to one that has been unmounted. That is the
  runtime's cancellation of stale updates which the components rely on; it is React's
  behaviour, not code of App.jsx.
\<close>

record guard =
  isAuthenticated :: "bool option"
  isLoading :: bool
  phase :: phase
  probe :: probe_status
  subscribed :: bool
  unsubscribe_calls :: nat
  console :: "(string \<times> js_error) list"
  unhandled :: "js_error list"
  setter_calls :: "setter_call list"
  committed :: "bool option \<times> bool"

text \<open>\<open>React.useState(null)\<close> and \<open>React.useState(true)\<close>, before the effect has run.\<close>

definition useState_init :: guard where
  "useState_init =
     \<lparr>isAuthenticated = None, isLoading = True, phase = Fresh, probe = Idle,
      subscribed = False, unsubscribe_calls = 0, console = [], unhandled = [],
      setter_calls = [], committed = (None, True)\<rparr>"

definition setIsAuthenticated :: "bool option \<Rightarrow> guard \<Rightarrow> guard" where
  "setIsAuthenticated v g =
     g\<lparr>isAuthenticated := v,
       setter_calls := setter_calls g @ [SetIsAuthenticated v],
       committed := (if phase g = Unmounted then committed g else (v, snd (committed g)))\<rparr>"

definition setIsLoading :: "bool \<Rightarrow> guard \<Rightarrow> guard" where
  "setIsLoading v g =
     g\<lparr>isLoading := v,
       setter_calls := setter_calls g @ [SetIsLoading v],
       committed := (if phase g = Unmounted then committed g else (fst (committed g), v))\<rparr>"

definition console_error :: "string \<Rightarrow> js_error \<Rightarrow> guard \<Rightarrow> guard" where
  "console_error msg err g = g\<lparr>console := console g @ [(msg, err)]\<rparr>"

text \<open>JavaScript truthiness of a cell that holds \<open>null\<close> or a boolean.\<close>

fun truthy :: "bool option \<Rightarrow> bool" where
  "truthy None = False"
| "truthy (Some b) = b"

text \<open>
  JavaScript truthiness of what a notification carries, \<open>!!user\<close>: \<open>null\<close> is falsy, and so
  is a token that is the empty string.
\<close>

fun truthy_identity :: "identity option \<Rightarrow> bool" where
  "truthy_identity None = False"
| "truthy_identity (Some token) = (token \<noteq> [])"

subsection \<open>try / catch / finally\<close>

text \<open>A block completes normally or throws; either way it leaves a state behind.\<close>

datatype completion = Normal guard | Throw js_error guard

definition try_catch :: "completion \<Rightarrow> (js_error \<Rightarrow> guard \<Rightarrow> completion) \<Rightarrow> completion" where
  "try_catch c handler = (case c of Normal g \<Rightarrow> Normal g | Throw e g \<Rightarrow> handler e g)"

definition try_finally :: "completion \<Rightarrow> (guard \<Rightarrow> completion) \<Rightarrow> completion" where
  "try_finally c fin =
     (case c of
        Normal g \<Rightarrow> fin g
      | Throw e g \<Rightarrow> (case fin g of Normal g' \<Rightarrow> Throw e g' | Throw e' g' \<Rightarrow> Throw e' g'))"

text \<open>\<open>await p\<close>: resumes with the value of a fulfilled promise, throws the reason of a rejected one.\<close>

definition await :: "js_error + bool \<Rightarrow> guard \<Rightarrow> (bool \<Rightarrow> guard \<Rightarrow> completion) \<Rightarrow> completion" where
  "await outcome g k = (case outcome of Inl e \<Rightarrow> Throw e g | Inr v \<Rightarrow> k v g)"

subsection \<open>Events\<close>

text \<open>
  What can happen to an instance: it is mounted, its probe is fulfilled or rejected, the
  provider emits a notification, it is unmounted.
\<close>

datatype event =
    Mount
  | ProbeFulfil bool
  | ProbeReject js_error
  | Notify "identity option"
  | Unmount

text \<open>
  The events that carry an observation of the provider: a settlement of the probe or a
  notification.
\<close>

fun observation :: "event \<Rightarrow> bool" where
  "observation (ProbeFulfil b) = True"
| "observation (ProbeReject e) = True"
| "observation (Notify user) = True"
| "observation Mount = False"
| "observation Unmount = False"

fun settlement :: "event \<Rightarrow> bool" where
  "settlement (ProbeFulfil b) = True"
| "settlement (ProbeReject e) = True"
| "settlement (Notify user) = False"
| "settlement Mount = False"
| "settlement Unmount = False"

subsection \<open>ProtectedRoute\<close>

text \<open>The body of \<open>checkAuth\<close> from the point where the awaited probe settles.\<close>

definition ProtectedRoute_checkAuth :: "js_error + bool \<Rightarrow> guard \<Rightarrow> completion" where
  "ProtectedRoute_checkAuth outcome g =
     try_finally
       (try_catch
          (await outcome g (\<lambda>authenticated g. Normal (setIsAuthenticated (Some authenticated) g)))
          (\<lambda>error g. Normal (setIsAuthenticated (Some False)
                               (console_error ''Auth check failed:'' error g))))
       (\<lambda>g. Normal (setIsLoading False g))"

text \<open>The callback handed to \<open>onAuthStateChanged\<close>: \<open>setIsAuthenticated(!!user)\<close>, then
  \<open>setIsLoading(false)\<close>.\<close>

definition ProtectedRoute_onAuthStateChanged :: "identity option \<Rightarrow> guard \<Rightarrow> guard" where
  "ProtectedRoute_onAuthStateChanged user g =
     setIsLoading False (setIsAuthenticated (Some (truthy_identity user)) g)"

text \<open>The effect: \<open>checkAuth()\<close> runs up to its \<open>await\<close>, then the handler is registered.\<close>

definition ProtectedRoute_useEffect :: "guard \<Rightarrow> guard" where
  "ProtectedRoute_useEffect g = g\<lparr>phase := Mounted, probe := InFlight, subscribed := True\<rparr>"

text \<open>The cleanup returned by the effect: \<open>() => unsubscribe()\<close>.\<close>

definition ProtectedRoute_cleanup :: "guard \<Rightarrow> guard" where
  "ProtectedRoute_cleanup g =
     g\<lparr>phase := Unmounted, subscribed := False, unsubscribe_calls := Suc (unsubscribe_calls g)\<rparr>"

text \<open>
  The probe settles: \<open>checkAuth\<close> resumes. \<open>checkAuth()\<close> is called without a handler for its
  own promise, so an error that left it would be an unhandled rejection.
\<close>

definition ProtectedRoute_settle :: "js_error + bool \<Rightarrow> guard \<Rightarrow> guard" where
  "ProtectedRoute_settle outcome g =
     (case ProtectedRoute_checkAuth outcome g of
        Normal g' \<Rightarrow> g'\<lparr>probe := Settled\<rparr>
      | Throw e g' \<Rightarrow> g'\<lparr>probe := Settled, unhandled := unhandled g' @ [e]\<rparr>)"

text \<open>
  One event. The effect has no dependencies, so it runs once, at mount; a promise settles
  once; the provider calls only a registered handler; the cleanup runs at unmount.
\<close>

fun ProtectedRoute_step :: "event \<Rightarrow> guard \<Rightarrow> guard" where
  "ProtectedRoute_step Mount g = (if phase g = Fresh then ProtectedRoute_useEffect g else g)"
| "ProtectedRoute_step (ProbeFulfil b) g =
     (if probe g = InFlight then ProtectedRoute_settle (Inr b) g else g)"
| "ProtectedRoute_step (ProbeReject e) g =
     (if probe g = InFlight then ProtectedRoute_settle (Inl e) g else g)"
| "ProtectedRoute_step (Notify user) g =
     (if subscribed g then ProtectedRoute_onAuthStateChanged user g else g)"
| "ProtectedRoute_step Unmount g = (if phase g = Mounted then ProtectedRoute_cleanup g else g)"

definition ProtectedRoute_run :: "event list \<Rightarrow> guard" where
  "ProtectedRoute_run es = fold ProtectedRoute_step es useState_init"

text \<open>The return value of the component for the current cells.\<close>

definition ProtectedRoute_render :: "element \<Rightarrow> guard \<Rightarrow> element" where
  "ProtectedRoute_render children g =
     (if isLoading g then Spinner ''Checking authentication...''
      else if \<not> truthy (isAuthenticated g) then Navigate ''/login'' True
      else children)"

subsection \<open>PublicRoute\<close>

definition PublicRoute_checkAuth :: "js_error + bool \<Rightarrow> guard \<Rightarrow> completion" where
  "PublicRoute_checkAuth outcome g =
     try_finally
       (try_catch
          (await outcome g (\<lambda>authenticated g. Normal (setIsAuthenticated (Some authenticated) g)))
          (\<lambda>error g. Normal (setIsAuthenticated (Some False)
                               (console_error ''Auth check failed:'' error g))))
       (\<lambda>g. Normal (setIsLoading False g))"

definition PublicRoute_onAuthStateChanged :: "identity option \<Rightarrow> guard \<Rightarrow> guard" where
  "PublicRoute_onAuthStateChanged user g =
     setIsLoading False (setIsAuthenticated (Some (truthy_identity user)) g)"

definition PublicRoute_useEffect :: "guard \<Rightarrow> guard" where
  "PublicRoute_useEffect g = g\<lparr>phase := Mounted, probe := InFlight, subscribed := True\<rparr>"

definition PublicRoute_cleanup :: "guard \<Rightarrow> guard" where
  "PublicRoute_cleanup g =
     g\<lparr>phase := Unmounted, subscribed := False, unsubscribe_calls := Suc (unsubscribe_calls g)\<rparr>"

definition PublicRoute_settle :: "js_error + bool \<Rightarrow> guard \<Rightarrow> guard" where
  "PublicRoute_settle outcome g =
     (case PublicRoute_checkAuth outcome g of
        Normal g' \<Rightarrow> g'\<lparr>probe := Settled\<rparr>
      | Throw e g' \<Rightarrow> g'\<lparr>probe := Settled, unhandled := unhandled g' @ [e]\<rparr>)"

fun PublicRoute_step :: "event \<Rightarrow> guard \<Rightarrow> guard" where
  "PublicRoute_step Mount g = (if phase g = Fresh then PublicRoute_useEffect g else g)"
| "PublicRoute_step (ProbeFulfil b) g =
     (if probe g = InFlight then PublicRoute_settle (Inr b) g else g)"
| "PublicRoute_step (ProbeReject e) g =
     (if probe g = InFlight then PublicRoute_settle (Inl e) g else g)"
| "PublicRoute_step (Notify user) g =
     (if subscribed g then PublicRoute_onAuthStateChanged user g else g)"
| "PublicRoute_step Unmount g = (if phase g = Mounted then PublicRoute_cleanup g else g)"

definition PublicRoute_run :: "event list \<Rightarrow> guard" where
  "PublicRoute_run es = fold PublicRoute_step es useState_init"

definition PublicRoute_render :: "element \<Rightarrow> guard \<Rightarrow> element" where
  "PublicRoute_render children g =
     (if isLoading g then Spinner ''Loading...''
      else if truthy (isAuthenticated g) then Navigate ''/'' True
      else children)"

subsection \<open>The specification's tri-state\<close>

text \<open>
  The specification speaks of one value \<open>AuthState\<close>; the code holds it as the pair of
  cells. The pending flag is \<open>isLoading\<close>; once it is cleared the state is \<open>Authenticated\<close>
  when \<open>isAuthenticated\<close> is truthy and \<open>Unauthenticated\<close> otherwise.
\<close>

datatype AuthState = Unknown | Authenticated | Unauthenticated

definition AuthState_of :: "guard \<Rightarrow> AuthState" where
  "AuthState_of g =
     (if isLoading g then Unknown
      else if truthy (isAuthenticated g) then Authenticated else Unauthenticated)"

fun is_navigate :: "element \<Rightarrow> bool" where
  "is_navigate (Navigate to r) = True"
| "is_navigate e = False"

text \<open>
  The shape the two render functions are compared with: a guard that shows a spinner with
  a caption while \<open>isLoading\<close> holds, and then redirects to a target when a condition on the
  truthiness of \<open>isAuthenticated\<close> holds and returns its children otherwise.
\<close>

definition guard_render ::
  "string \<Rightarrow> (bool \<Rightarrow> bool) \<Rightarrow> string \<Rightarrow> element \<Rightarrow> guard \<Rightarrow> element" where
  "guard_render caption redirect_when target children g =
     (if isLoading g then Spinner caption
      else if redirect_when (truthy (isAuthenticated g)) then Navigate target True
      else children)"

subsection \<open>The route table\<close>










section \<open>Properties\<close>

subsection \<open>Running a trace\<close>

lemma ProtectedRoute_run_Nil: "ProtectedRoute_run [] = useState_init"
  by (simp add: ProtectedRoute_run_def)

lemma ProtectedRoute_run_snoc:
  "ProtectedRoute_run (es @ [e]) = ProtectedRoute_step e (ProtectedRoute_run es)"
  by (simp add: ProtectedRoute_run_def)

lemma PublicRoute_run_Nil: "PublicRoute_run [] = useState_init"
  by (simp add: PublicRoute_run_def)

lemma PublicRoute_run_snoc:
  "PublicRoute_run (es @ [e]) = PublicRoute_step e (PublicRoute_run es)"
  by (simp add: PublicRoute_run_def)

subsection \<open>What one event does\<close>

lemma ProtectedRoute_checkAuth_Inr:
  "ProtectedRoute_checkAuth (Inr b) g =
     Normal (setIsLoading False (setIsAuthenticated (Some b) g))"
  by (simp add: ProtectedRoute_checkAuth_def try_catch_def try_finally_def await_def)

lemma ProtectedRoute_checkAuth_Inl:
  "ProtectedRoute_checkAuth (Inl e) g =
     Normal (setIsLoading False (setIsAuthenticated (Some False)
               (console_error ''Auth check failed:'' e g)))"
  by (simp add: ProtectedRoute_checkAuth_def try_catch_def try_finally_def await_def)

lemma ProtectedRoute_settle_Inr:
  "ProtectedRoute_settle (Inr b) g =
     g\<lparr>isAuthenticated := Some b, isLoading := False, probe := Settled,
       setter_calls := setter_calls g @ [SetIsAuthenticated (Some b), SetIsLoading False],
       committed := (if phase g = Unmounted then committed g else (Some b, False))\<rparr>"
  by (simp add: ProtectedRoute_settle_def ProtectedRoute_checkAuth_Inr
      setIsAuthenticated_def setIsLoading_def)

lemma ProtectedRoute_settle_Inl:
  "ProtectedRoute_settle (Inl e) g =
     g\<lparr>isAuthenticated := Some False, isLoading := False, probe := Settled,
       console := console g @ [(''Auth check failed:'', e)],
       setter_calls := setter_calls g @ [SetIsAuthenticated (Some False), SetIsLoading False],
       committed := (if phase g = Unmounted then committed g else (Some False, False))\<rparr>"
  by (simp add: ProtectedRoute_settle_def ProtectedRoute_checkAuth_Inl
      setIsAuthenticated_def setIsLoading_def console_error_def)

lemma ProtectedRoute_handler:
  "ProtectedRoute_onAuthStateChanged user g =
     g\<lparr>isAuthenticated := Some (truthy_identity user), isLoading := False,
       setter_calls :=
         setter_calls g @ [SetIsAuthenticated (Some (truthy_identity user)), SetIsLoading False],
       committed :=
         (if phase g = Unmounted then committed g else (Some (truthy_identity user), False))\<rparr>"
  by (simp add: ProtectedRoute_onAuthStateChanged_def setIsAuthenticated_def setIsLoading_def)

lemmas ProtectedRoute_simps = ProtectedRoute_settle_Inr ProtectedRoute_settle_Inl
  ProtectedRoute_handler ProtectedRoute_useEffect_def ProtectedRoute_cleanup_def

subsection \<open>The two guards step alike\<close>

lemma PublicRoute_checkAuth_eq: "PublicRoute_checkAuth = ProtectedRoute_checkAuth"
  by (intro ext) (simp add: PublicRoute_checkAuth_def ProtectedRoute_checkAuth_def)

lemma PublicRoute_step_eq: "PublicRoute_step e g = ProtectedRoute_step e g"
  by (cases e)
    (simp_all add: PublicRoute_settle_def ProtectedRoute_settle_def PublicRoute_checkAuth_eq
      PublicRoute_onAuthStateChanged_def ProtectedRoute_onAuthStateChanged_def
      PublicRoute_useEffect_def ProtectedRoute_useEffect_def
      PublicRoute_cleanup_def ProtectedRoute_cleanup_def)

lemma PublicRoute_fold_eq: "fold PublicRoute_step es g = fold ProtectedRoute_step es g"
  by (induction es arbitrary: g) (simp_all add: PublicRoute_step_eq)

lemma PublicRoute_run_eq: "PublicRoute_run es = ProtectedRoute_run es"
  by (simp add: PublicRoute_run_def ProtectedRoute_run_def PublicRoute_fold_eq)

subsection \<open>Invariants of the reachable states\<close>

text \<open>
  The handler is registered exactly while the instance is mounted, the probe has been
  started exactly when the effect has run, \<open>unsubscribe\<close> has been called once after the
  unmount and not before, and no error has left \<open>checkAuth\<close>.
\<close>

lemma ProtectedRoute_lifecycle:
  "(subscribed (ProtectedRoute_run es) \<longleftrightarrow> phase (ProtectedRoute_run es) = Mounted) \<and>
   (probe (ProtectedRoute_run es) = Idle \<longleftrightarrow> phase (ProtectedRoute_run es) = Fresh) \<and>
   unsubscribe_calls (ProtectedRoute_run es) =
     (if phase (ProtectedRoute_run es) = Unmounted then 1 else 0) \<and>
   unhandled (ProtectedRoute_run es) = []"
proof (induction es rule: rev_induct)
  case Nil
  show ?case by (simp add: ProtectedRoute_run_Nil useState_init_def)
next
  case (snoc e es)
  then show ?case
    by (cases e) (auto simp add: ProtectedRoute_run_snoc ProtectedRoute_simps)
qed

lemma ProtectedRoute_cells:
  "(isLoading (ProtectedRoute_run es) \<longleftrightarrow> isAuthenticated (ProtectedRoute_run es) = None) \<and>
   (isLoading (ProtectedRoute_run es) \<longleftrightarrow> setter_calls (ProtectedRoute_run es) = []) \<and>
   (probe (ProtectedRoute_run es) = Settled \<longrightarrow> \<not> isLoading (ProtectedRoute_run es))"
proof (induction es rule: rev_induct)
  case Nil
  show ?case by (simp add: ProtectedRoute_run_Nil useState_init_def)
next
  case (snoc e es)
  then show ?case
    by (cases e) (auto simp add: ProtectedRoute_run_snoc ProtectedRoute_simps)
qed

lemma ProtectedRoute_quiet:
  "list_all (\<lambda>e. \<not> observation e) es \<Longrightarrow>
     isLoading (ProtectedRoute_run es) \<and> isAuthenticated (ProtectedRoute_run es) = None \<and>
     setter_calls (ProtectedRoute_run es) = []"
proof (induction es rule: rev_induct)
  case Nil
  show ?case by (simp add: ProtectedRoute_run_Nil useState_init_def)
next
  case (snoc e es)
  then show ?case
    by (cases e) (auto simp add: ProtectedRoute_run_snoc ProtectedRoute_simps)
qed

lemma ProtectedRoute_resolved_stays:
  "\<not> isLoading g \<Longrightarrow> \<not> isLoading (fold ProtectedRoute_step es g)"
proof (induction es arbitrary: g)
  case Nil
  then show ?case by simp
next
  case (Cons e es)
  have "\<not> isLoading (ProtectedRoute_step e g)"
    using Cons.prems by (cases e) (simp_all add: ProtectedRoute_simps)
  then show ?case using Cons.IH by simp
qed


lemma AuthState_of_cases:
  "AuthState_of g = Unknown \<longleftrightarrow> isLoading g"
  "AuthState_of g = Authenticated \<longleftrightarrow> \<not> isLoading g \<and> truthy (isAuthenticated g)"
  "AuthState_of g = Unauthenticated \<longleftrightarrow> \<not> isLoading g \<and> \<not> truthy (isAuthenticated g)"
  by (simp_all add: AuthState_of_def)

subsection \<open>Render policy\<close>

text \<open>
  C1. A \<open>ProtectedRoute\<close> whose pending flag is cleared returns its children when the state
  is \<open>Authenticated\<close> and the redirect to \<open>/login\<close> when it is \<open>Unauthenticated\<close>.
\<close>

theorem ProtectedRoute_render_resolved:
  "\<not> isLoading g \<longrightarrow>
     (AuthState_of g = Authenticated \<longrightarrow> ProtectedRoute_render children g = children) \<and>
     (AuthState_of g = Unauthenticated \<longrightarrow>
        ProtectedRoute_render children g = Navigate ''/login'' True)"
  by (simp add: AuthState_of_def ProtectedRoute_render_def)

theorem ProtectedRoute_render_resolved_witness:
  "\<not> isLoading (ProtectedRoute_run [Mount, ProbeFulfil True]) \<and>
   AuthState_of (ProtectedRoute_run [Mount, ProbeFulfil True]) = Authenticated \<and>
   ProtectedRoute_render (Layout (Page Home)) (ProtectedRoute_run [Mount, ProbeFulfil True])
     = Layout (Page Home) \<and>
   \<not> isLoading (ProtectedRoute_run [Mount, ProbeFulfil False]) \<and>
   AuthState_of (ProtectedRoute_run [Mount, ProbeFulfil False]) = Unauthenticated \<and>
   ProtectedRoute_render (Layout (Page Home)) (ProtectedRoute_run [Mount, ProbeFulfil False])
     = Navigate ''/login'' True"
proof -
  have a: "\<not> isLoading (ProtectedRoute_run [Mount, ProbeFulfil True])"
    and b: "AuthState_of (ProtectedRoute_run [Mount, ProbeFulfil True]) = Authenticated"
    and c: "\<not> isLoading (ProtectedRoute_run [Mount, ProbeFulfil False])"
    and d: "AuthState_of (ProtectedRoute_run [Mount, ProbeFulfil False]) = Unauthenticated"
    by (simp_all add: ProtectedRoute_run_def useState_init_def ProtectedRoute_simps
        AuthState_of_def)
  from a b c d
    ProtectedRoute_render_resolved
      [of "ProtectedRoute_run [Mount, ProbeFulfil True]" "Layout (Page Home)"]
    ProtectedRoute_render_resolved
      [of "ProtectedRoute_run [Mount, ProbeFulfil False]" "Layout (Page Home)"]
  show ?thesis by simp
qed

text \<open>
  C6. A \<open>PublicRoute\<close> whose pending flag is cleared returns its children when the state is
  \<open>Unauthenticated\<close> and the redirect to \<open>/\<close> when it is \<open>Authenticated\<close>.
\<close>

theorem PublicRoute_render_resolved:
  "\<not> isLoading g \<longrightarrow>
     (AuthState_of g = Unauthenticated \<longrightarrow> PublicRoute_render children g = children) \<and>
     (AuthState_of g = Authenticated \<longrightarrow> PublicRoute_render children g = Navigate ''/'' True)"
  by (simp add: AuthState_of_def PublicRoute_render_def)

theorem PublicRoute_render_resolved_witness:
  "\<not> isLoading (PublicRoute_run [Mount, Notify None]) \<and>
   AuthState_of (PublicRoute_run [Mount, Notify None]) = Unauthenticated \<and>
   PublicRoute_render (Page Authentication) (PublicRoute_run [Mount, Notify None])
     = Page Authentication \<and>
   \<not> isLoading (PublicRoute_run [Mount, Notify (Some ''uid-1'')]) \<and>
   AuthState_of (PublicRoute_run [Mount, Notify (Some ''uid-1'')]) = Authenticated \<and>
   PublicRoute_render (Page Authentication) (PublicRoute_run [Mount, Notify (Some ''uid-1'')])
     = Navigate ''/'' True"
proof -
  have a: "\<not> isLoading (PublicRoute_run [Mount, Notify None])"
    and b: "AuthState_of (PublicRoute_run [Mount, Notify None]) = Unauthenticated"
    and c: "\<not> isLoading (PublicRoute_run [Mount, Notify (Some ''uid-1'')])"
    and d: "AuthState_of (PublicRoute_run [Mount, Notify (Some ''uid-1'')]) = Authenticated"
    by (simp_all add: PublicRoute_run_eq ProtectedRoute_run_def useState_init_def
        ProtectedRoute_simps AuthState_of_def)
  from a b c d
    PublicRoute_render_resolved
      [of "PublicRoute_run [Mount, Notify None]" "Page Authentication"]
    PublicRoute_render_resolved
      [of "PublicRoute_run [Mount, Notify (Some ''uid-1'')]" "Page Authentication"]
  show ?thesis by simp
qed

text \<open>
  C3. As long as neither a settlement of the probe nor a notification has occurred, whatever
  else has happened to the instance, both guards are in \<open>Unknown\<close> and return their
  spinner: not the children and not a redirect.
\<close>

theorem guards_pending_before_observation:
  "list_all (\<lambda>e. \<not> observation e) es \<Longrightarrow>
     AuthState_of (ProtectedRoute_run es) = Unknown \<and>
     ProtectedRoute_render children (ProtectedRoute_run es)
       = Spinner ''Checking authentication...'' \<and>
     AuthState_of (PublicRoute_run es) = Unknown \<and>
     PublicRoute_render children (PublicRoute_run es) = Spinner ''Loading...''"
  using ProtectedRoute_quiet [of es]
  by (simp add: PublicRoute_run_eq AuthState_of_def ProtectedRoute_render_def
      PublicRoute_render_def)

theorem guards_pending_before_observation_witness:
  "list_all (\<lambda>e. \<not> observation e) [Mount] \<and>
   phase (ProtectedRoute_run [Mount]) = Mounted \<and>
   probe (ProtectedRoute_run [Mount]) = InFlight \<and>
   ProtectedRoute_render (Page Onboarding) (ProtectedRoute_run [Mount])
     = Spinner ''Checking authentication...'' \<and>
   PublicRoute_render (Page Authentication) (PublicRoute_run [Mount]) = Spinner ''Loading...''"
proof -
  have h: "list_all (\<lambda>e. \<not> observation e) [Mount]" by simp
  have p: "phase (ProtectedRoute_run [Mount]) = Mounted \<and>
           probe (ProtectedRoute_run [Mount]) = InFlight"
    by (simp add: ProtectedRoute_run_def useState_init_def ProtectedRoute_simps)
  from guards_pending_before_observation [OF h, of "Page Onboarding"]
    guards_pending_before_observation [OF h, of "Page Authentication"] h p
  show ?thesis by simp
qed

subsection \<open>The probe fails\<close>

lemma ProtectedRoute_checkAuth_Normal:
  "\<exists>g'. ProtectedRoute_checkAuth outcome g = Normal g'"
  by (cases outcome) (simp_all add: ProtectedRoute_checkAuth_Inl ProtectedRoute_checkAuth_Inr)

text \<open>
  C4. When the probe rejects with any error, \<open>checkAuth\<close> completes normally (nothing is
  thrown on, and no unhandled rejection is recorded), the error is passed to
  \<open>console.error\<close> with the message of the source, and the state is \<open>Unauthenticated\<close>:
  \<open>ProtectedRoute\<close> returns the redirect to \<open>/login\<close>, \<open>PublicRoute\<close> its children.
\<close>

theorem probe_rejection_fails_closed:
  "(\<exists>g'. ProtectedRoute_checkAuth (Inl err) g = Normal g') \<and>
   (\<exists>g'. PublicRoute_checkAuth (Inl err) g = Normal g') \<and>
   (probe (ProtectedRoute_run es) = InFlight \<longrightarrow>
      unhandled (ProtectedRoute_run (es @ [ProbeReject err])) = [] \<and>
      console (ProtectedRoute_run (es @ [ProbeReject err]))
        = console (ProtectedRoute_run es) @ [(''Auth check failed:'', err)] \<and>
      AuthState_of (ProtectedRoute_run (es @ [ProbeReject err])) = Unauthenticated \<and>
      ProtectedRoute_render children (ProtectedRoute_run (es @ [ProbeReject err]))
        = Navigate ''/login'' True) \<and>
   (probe (PublicRoute_run es) = InFlight \<longrightarrow>
      unhandled (PublicRoute_run (es @ [ProbeReject err])) = [] \<and>
      console (PublicRoute_run (es @ [ProbeReject err]))
        = console (PublicRoute_run es) @ [(''Auth check failed:'', err)] \<and>
      AuthState_of (PublicRoute_run (es @ [ProbeReject err])) = Unauthenticated \<and>
      PublicRoute_render children (PublicRoute_run (es @ [ProbeReject err])) = children)"
proof -
  have u: "unhandled (ProtectedRoute_run es) = []"
    using ProtectedRoute_lifecycle [of es] by simp
  have pr: "probe (ProtectedRoute_run es) = InFlight \<longrightarrow>
      unhandled (ProtectedRoute_run (es @ [ProbeReject err])) = [] \<and>
      console (ProtectedRoute_run (es @ [ProbeReject err]))
        = console (ProtectedRoute_run es) @ [(''Auth check failed:'', err)] \<and>
      AuthState_of (ProtectedRoute_run (es @ [ProbeReject err])) = Unauthenticated"
    using u by (simp add: ProtectedRoute_run_snoc ProtectedRoute_settle_Inl AuthState_of_def)
  have r1: "AuthState_of (ProtectedRoute_run (es @ [ProbeReject err])) = Unauthenticated \<longrightarrow>
      ProtectedRoute_render children (ProtectedRoute_run (es @ [ProbeReject err]))
        = Navigate ''/login'' True"
    by (simp add: AuthState_of_cases ProtectedRoute_render_def)
  have r2: "AuthState_of (ProtectedRoute_run (es @ [ProbeReject err])) = Unauthenticated \<longrightarrow>
      PublicRoute_render children (ProtectedRoute_run (es @ [ProbeReject err])) = children"
    by (simp add: AuthState_of_cases PublicRoute_render_def)
  show ?thesis
    using pr r1 r2 ProtectedRoute_checkAuth_Normal [of "Inl err" g]
    by (simp add: PublicRoute_run_eq PublicRoute_checkAuth_eq)
qed

theorem probe_rejection_fails_closed_witness:
  "probe (ProtectedRoute_run [Mount]) = InFlight \<and>
   unhandled (ProtectedRoute_run [Mount, ProbeReject ''NetworkError'']) = [] \<and>
   console (ProtectedRoute_run [Mount, ProbeReject ''NetworkError''])
     = [(''Auth check failed:'', ''NetworkError'')] \<and>
   AuthState_of (ProtectedRoute_run [Mount, ProbeReject ''NetworkError'']) = Unauthenticated \<and>
   ProtectedRoute_render (Page Onboarding) (ProtectedRoute_run [Mount, ProbeReject ''NetworkError''])
     = Navigate ''/login'' True \<and>
   probe (PublicRoute_run [Mount]) = InFlight \<and>
   PublicRoute_render (Page Authentication) (PublicRoute_run [Mount, ProbeReject ''NetworkError''])
     = Page Authentication"
proof -
  have a: "probe (ProtectedRoute_run [Mount]) = InFlight"
    and b: "console (ProtectedRoute_run [Mount]) = []"
    by (simp_all add: ProtectedRoute_run_def useState_init_def ProtectedRoute_simps)
  have c: "probe (PublicRoute_run [Mount]) = InFlight"
    using a by (simp add: PublicRoute_run_eq)
  from probe_rejection_fails_closed
      [of "''NetworkError''" useState_init "[Mount]" "Page Onboarding"]
    probe_rejection_fails_closed
      [of "''NetworkError''" useState_init "[Mount]" "Page Authentication"] a b c
  show ?thesis by simp
qed

subsection \<open>Release of the subscription\<close>

text \<open>
  C8. In every reachable state of either guard: once the instance is unmounted,
  \<open>unsubscribe\<close> has been called exactly once and the handler is no longer registered;
  while it is mounted, \<open>unsubscribe\<close> has not been called, and unmounting is possible.
\<close>

theorem unsubscribe_exactly_once:
  "(phase (ProtectedRoute_run es) = Unmounted \<longrightarrow>
      unsubscribe_calls (ProtectedRoute_run es) = 1 \<and> \<not> subscribed (ProtectedRoute_run es)) \<and>
   (phase (ProtectedRoute_run es) = Mounted \<longrightarrow>
      unsubscribe_calls (ProtectedRoute_run es) = 0 \<and> subscribed (ProtectedRoute_run es) \<and>
      phase (ProtectedRoute_run (es @ [Unmount])) = Unmounted) \<and>
   (phase (PublicRoute_run es) = Unmounted \<longrightarrow>
      unsubscribe_calls (PublicRoute_run es) = 1 \<and> \<not> subscribed (PublicRoute_run es)) \<and>
   (phase (PublicRoute_run es) = Mounted \<longrightarrow>
      unsubscribe_calls (PublicRoute_run es) = 0 \<and> subscribed (PublicRoute_run es) \<and>
      phase (PublicRoute_run (es @ [Unmount])) = Unmounted)"
  using ProtectedRoute_lifecycle [of es]
  by (simp add: PublicRoute_run_eq ProtectedRoute_run_snoc ProtectedRoute_cleanup_def)

theorem unsubscribe_exactly_once_witness:
  "phase (ProtectedRoute_run [Mount, Notify None]) = Mounted \<and>
   unsubscribe_calls (ProtectedRoute_run [Mount, Notify None]) = 0 \<and>
   phase (ProtectedRoute_run [Mount, Notify None, Unmount, ProbeFulfil True, Unmount]) = Unmounted \<and>
   unsubscribe_calls (ProtectedRoute_run [Mount, Notify None, Unmount, ProbeFulfil True, Unmount]) = 1 \<and>
   \<not> subscribed (ProtectedRoute_run [Mount, Notify None, Unmount, ProbeFulfil True, Unmount]) \<and>
   phase (PublicRoute_run [Mount, Notify None]) = Mounted \<and>
   phase (PublicRoute_run [Mount, Unmount]) = Unmounted \<and>
   unsubscribe_calls (PublicRoute_run [Mount, Unmount]) = 1"
proof -
  have a: "phase (ProtectedRoute_run [Mount, Notify None]) = Mounted"
    and b: "phase (ProtectedRoute_run [Mount, Notify None, Unmount, ProbeFulfil True, Unmount])
              = Unmounted"
    and c: "phase (ProtectedRoute_run [Mount, Unmount]) = Unmounted"
    by (simp_all add: ProtectedRoute_run_def useState_init_def ProtectedRoute_simps)
  from a b c
    unsubscribe_exactly_once [of "[Mount, Notify None]"]
    unsubscribe_exactly_once [of "[Mount, Notify None, Unmount, ProbeFulfil True, Unmount]"]
    unsubscribe_exactly_once [of "[Mount, Unmount]"]
  show ?thesis by (simp add: PublicRoute_run_eq)
qed

subsection \<open>After the probe\<close>

lemma ProtectedRoute_after_settlement:
  "probe g = InFlight \<Longrightarrow> settlement e \<Longrightarrow> \<not> isLoading (ProtectedRoute_step e g)"
  by (cases e) (simp_all add: ProtectedRoute_simps)

text \<open>
  C10. When the probe that was in flight settles, fulfilled or rejected, \<open>isLoading\<close> is
  false from then on, whatever happens later, and each guard returns its redirect or its
  children, not its spinner; in every reachable state with a settled probe \<open>isLoading\<close> is
  false.
\<close>

theorem not_loading_once_probe_settled:
  "(probe (ProtectedRoute_run es) = InFlight \<and> settlement e \<longrightarrow>
      \<not> isLoading (ProtectedRoute_run (es @ e # es')) \<and>
      (ProtectedRoute_render children (ProtectedRoute_run (es @ e # es')) = Navigate ''/login'' True \<or>
       ProtectedRoute_render children (ProtectedRoute_run (es @ e # es')) = children)) \<and>
   (probe (PublicRoute_run es) = InFlight \<and> settlement e \<longrightarrow>
      \<not> isLoading (PublicRoute_run (es @ e # es')) \<and>
      (PublicRoute_render children (PublicRoute_run (es @ e # es')) = Navigate ''/'' True \<or>
       PublicRoute_render children (PublicRoute_run (es @ e # es')) = children)) \<and>
   (probe (ProtectedRoute_run es) = Settled \<longrightarrow> \<not> isLoading (ProtectedRoute_run es)) \<and>
   (probe (PublicRoute_run es) = Settled \<longrightarrow> \<not> isLoading (PublicRoute_run es))"
proof -
  have later: "\<not> isLoading (ProtectedRoute_run (es @ e # es'))"
    if "probe (ProtectedRoute_run es) = InFlight" "settlement e"
  proof -
    have "\<not> isLoading (ProtectedRoute_step e (ProtectedRoute_run es))"
      using that by (rule ProtectedRoute_after_settlement)
    then have "\<not> isLoading (fold ProtectedRoute_step es' (ProtectedRoute_step e (ProtectedRoute_run es)))"
      by (rule ProtectedRoute_resolved_stays)
    then show ?thesis by (simp add: ProtectedRoute_run_def)
  qed
  have out1: "\<not> isLoading g \<Longrightarrow>
      ProtectedRoute_render children g = Navigate ''/login'' True \<or>
      ProtectedRoute_render children g = children" for g
    by (simp add: ProtectedRoute_render_def)
  have out2: "\<not> isLoading g \<Longrightarrow>
      PublicRoute_render children g = Navigate ''/'' True \<or>
      PublicRoute_render children g = children" for g
    by (simp add: PublicRoute_render_def)
  have settled: "probe (ProtectedRoute_run es) = Settled \<longrightarrow> \<not> isLoading (ProtectedRoute_run es)"
    using ProtectedRoute_cells [of es] by blast
  show ?thesis
    using later out1 out2 settled
    by (simp add: PublicRoute_run_eq)
qed

theorem not_loading_once_probe_settled_witness:
  "probe (ProtectedRoute_run [Mount]) = InFlight \<and> settlement (ProbeReject ''NetworkError'') \<and>
   \<not> isLoading (ProtectedRoute_run [Mount, ProbeReject ''NetworkError'', Unmount]) \<and>
   probe (ProtectedRoute_run [Mount, ProbeReject ''NetworkError'', Unmount]) = Settled \<and>
   ProtectedRoute_render (Layout (Page Home))
       (ProtectedRoute_run [Mount, ProbeReject ''NetworkError'', Unmount])
     = Navigate ''/login'' True \<and>
   probe (PublicRoute_run [Mount]) = InFlight \<and>
   \<not> isLoading (PublicRoute_run [Mount, ProbeReject ''NetworkError'', Unmount]) \<and>
   PublicRoute_render (Page Authentication)
       (PublicRoute_run [Mount, ProbeReject ''NetworkError'', Unmount])
     = Page Authentication"
proof -
  have a: "probe (ProtectedRoute_run [Mount]) = InFlight"
    and b: "probe (ProtectedRoute_run [Mount, ProbeReject ''NetworkError'', Unmount]) = Settled"
    and c: "isAuthenticated (ProtectedRoute_run [Mount, ProbeReject ''NetworkError'', Unmount])
              = Some False"
    by (simp_all add: ProtectedRoute_run_def useState_init_def ProtectedRoute_simps)
  from a b
    not_loading_once_probe_settled
      [of "[Mount]" "ProbeReject ''NetworkError''" "[Unmount]" "Layout (Page Home)"]
    not_loading_once_probe_settled
      [of "[Mount, ProbeReject ''NetworkError'', Unmount]" "ProbeReject ''NetworkError''" "[]"
          "Page Authentication"]
  show ?thesis
    using c by (simp add: PublicRoute_run_eq ProtectedRoute_render_def PublicRoute_render_def)
qed

subsection \<open>After the unmount\<close>



text \<open>
  The code itself does not ask whether the instance is still mounted: a probe that settles
  after the unmount still calls both setters. The calls are the ones React drops.
\<close>

lemma stale_probe_setter_calls:
  "setter_calls (ProtectedRoute_run [Mount, Unmount]) = [] \<and>
   setter_calls (ProtectedRoute_run [Mount, Unmount, ProbeFulfil True])
     = [SetIsAuthenticated (Some True), SetIsLoading False] \<and>
   committed (ProtectedRoute_run [Mount, Unmount, ProbeFulfil True]) = (None, True)"
  by (simp add: ProtectedRoute_run_def useState_init_def ProtectedRoute_simps)



subsection \<open>Last write wins\<close>

text \<open>
  C5, as stated: a notification gives \<open>Authenticated\<close> exactly when the identity is not
  \<open>null\<close>. The handler tests \<open>!!user\<close>: an identity that is the empty string is not \<open>null\<close>
  and gives \<open>Unauthenticated\<close>.
\<close>

theorem empty_identity_notification_counterexample:
  "Some '''' \<noteq> (None :: identity option) \<and>
   subscribed (ProtectedRoute_run [Mount]) \<and>
   AuthState_of (ProtectedRoute_run [Mount, Notify (Some '''')]) = Unauthenticated \<and>
   isAuthenticated (ProtectedRoute_run [Mount, Notify (Some '''')]) = Some False \<and>
   subscribed (PublicRoute_run [Mount]) \<and>
   AuthState_of (PublicRoute_run [Mount, Notify (Some '''')]) = Unauthenticated"
  by (simp add: PublicRoute_run_eq ProtectedRoute_run_def useState_init_def ProtectedRoute_simps
      AuthState_of_def)

text \<open>
  C5, as amended. The handler of either guard leaves \<open>Authenticated\<close> exactly when the
  identity it was given is truthy (not \<open>null\<close> and not the empty string), and
  \<open>Unauthenticated\<close> otherwise, whatever the state was. So after any trace that leaves the
  handler registered, a notification alone decides the state; and a probe that is fulfilled
  after any trace, notifications included, decides it likewise.
\<close>

theorem notification_overwrites_last_write_wins:
  "(truthy_identity user \<longleftrightarrow> user \<noteq> None \<and> user \<noteq> Some '''') \<and>
   AuthState_of (ProtectedRoute_onAuthStateChanged user g)
     = (if truthy_identity user then Authenticated else Unauthenticated) \<and>
   AuthState_of (PublicRoute_onAuthStateChanged user g)
     = (if truthy_identity user then Authenticated else Unauthenticated) \<and>
   (subscribed (ProtectedRoute_run es) \<longrightarrow>
      AuthState_of (ProtectedRoute_run (es @ [Notify user]))
        = (if truthy_identity user then Authenticated else Unauthenticated)) \<and>
   (subscribed (PublicRoute_run es) \<longrightarrow>
      AuthState_of (PublicRoute_run (es @ [Notify user]))
        = (if truthy_identity user then Authenticated else Unauthenticated)) \<and>
   (probe (ProtectedRoute_run es) = InFlight \<longrightarrow>
      AuthState_of (ProtectedRoute_run (es @ [ProbeFulfil b]))
        = (if b then Authenticated else Unauthenticated)) \<and>
   (probe (PublicRoute_run es) = InFlight \<longrightarrow>
      AuthState_of (PublicRoute_run (es @ [ProbeFulfil b]))
        = (if b then Authenticated else Unauthenticated))"
proof -
  have t: "truthy_identity user \<longleftrightarrow> user \<noteq> None \<and> user \<noteq> Some ''''"
    by (cases user) simp_all
  have h: "AuthState_of (ProtectedRoute_onAuthStateChanged user g)
             = (if truthy_identity user then Authenticated else Unauthenticated)"
    by (simp add: ProtectedRoute_handler AuthState_of_def)
  have h': "AuthState_of (PublicRoute_onAuthStateChanged user g)
             = (if truthy_identity user then Authenticated else Unauthenticated)"
    using h by (simp add: PublicRoute_onAuthStateChanged_def ProtectedRoute_onAuthStateChanged_def)
  have n: "subscribed (ProtectedRoute_run es) \<longrightarrow>
      AuthState_of (ProtectedRoute_run (es @ [Notify user]))
        = (if truthy_identity user then Authenticated else Unauthenticated)"
    by (simp add: ProtectedRoute_run_snoc ProtectedRoute_handler AuthState_of_def)
  have p: "probe (ProtectedRoute_run es) = InFlight \<longrightarrow>
      AuthState_of (ProtectedRoute_run (es @ [ProbeFulfil b]))
        = (if b then Authenticated else Unauthenticated)"
    by (simp add: ProtectedRoute_run_snoc ProtectedRoute_settle_Inr AuthState_of_def)
  show ?thesis
    using t h h' n p by (simp add: PublicRoute_run_eq)
qed

theorem notification_overwrites_last_write_wins_witness:
  "subscribed (ProtectedRoute_run [Mount, ProbeFulfil True]) \<and>
   AuthState_of (ProtectedRoute_run [Mount, ProbeFulfil True]) = Authenticated \<and>
   AuthState_of (ProtectedRoute_run [Mount, ProbeFulfil True, Notify None]) = Unauthenticated \<and>
   subscribed (PublicRoute_run [Mount, ProbeFulfil True]) \<and>
   AuthState_of (PublicRoute_run [Mount, ProbeFulfil True, Notify None]) = Unauthenticated \<and>
   probe (ProtectedRoute_run [Mount, Notify (Some ''uid-1'')]) = InFlight \<and>
   subscribed (ProtectedRoute_run [Mount]) \<and>
   AuthState_of (ProtectedRoute_run [Mount, Notify (Some ''uid-1'')]) = Authenticated \<and>
   AuthState_of (ProtectedRoute_run [Mount, Notify (Some ''uid-1''), ProbeFulfil False])
     = Unauthenticated \<and>
   probe (PublicRoute_run [Mount, Notify (Some ''uid-1'')]) = InFlight \<and>
   AuthState_of (PublicRoute_run [Mount, Notify (Some ''uid-1''), ProbeFulfil False])
     = Unauthenticated"
proof -
  have a: "subscribed (ProtectedRoute_run [Mount, ProbeFulfil True])"
    and b: "AuthState_of (ProtectedRoute_run [Mount, ProbeFulfil True]) = Authenticated"
    and c: "probe (ProtectedRoute_run [Mount, Notify (Some ''uid-1'')]) = InFlight"
    and d: "subscribed (ProtectedRoute_run [Mount])"
    by (simp_all add: ProtectedRoute_run_def useState_init_def ProtectedRoute_simps
        AuthState_of_def)
  from a b c d
    notification_overwrites_last_write_wins
      [of None useState_init "[Mount, ProbeFulfil True]" True]
    notification_overwrites_last_write_wins
      [of "Some ''uid-1''" useState_init "[Mount]" True]
    notification_overwrites_last_write_wins
      [of None useState_init "[Mount, Notify (Some ''uid-1'')]" False]
  show ?thesis by (simp add: PublicRoute_run_eq)
qed

subsection \<open>The two guards compared\<close>

text \<open>
  C9, as stated: the two guards differ only in the final render branch. In the same state,
  with \<open>isLoading\<close> set, they return different elements: the captions of the two spinners
  differ.
\<close>

theorem pending_caption_differs_counterexample:
  "PublicRoute_run [Mount] = ProtectedRoute_run [Mount] \<and>
   isLoading (ProtectedRoute_run [Mount]) \<and>
   ProtectedRoute_render (Page Home) (ProtectedRoute_run [Mount])
     = Spinner ''Checking authentication...'' \<and>
   PublicRoute_render (Page Home) (PublicRoute_run [Mount]) = Spinner ''Loading...'' \<and>
   ProtectedRoute_render (Page Home) (ProtectedRoute_run [Mount])
     \<noteq> PublicRoute_render (Page Home) (PublicRoute_run [Mount])"
  by (simp add: PublicRoute_run_eq ProtectedRoute_run_def useState_init_def ProtectedRoute_simps
      ProtectedRoute_render_def PublicRoute_render_def)

text \<open>
  C9, as amended. From the same state and for the same events the two guards reach the
  same state. They differ only in what they render, and there in three places: the caption
  of the spinner shown while \<open>isLoading\<close> holds, the condition of the redirect once it is
  cleared (\<open>isAuthenticated\<close> not truthy for \<open>ProtectedRoute\<close>, truthy for \<open>PublicRoute\<close>, so
  exactly one of them redirects and the other returns its children), and the target of the
  redirect.
\<close>

theorem guards_same_mechanics:
  "fold PublicRoute_step es g = fold ProtectedRoute_step es g \<and>
   PublicRoute_run es = ProtectedRoute_run es \<and>
   ProtectedRoute_render = guard_render ''Checking authentication...'' (\<lambda>a. \<not> a) ''/login'' \<and>
   PublicRoute_render = guard_render ''Loading...'' (\<lambda>a. a) ''/'' \<and>
   (isLoading g \<longrightarrow>
      ProtectedRoute_render children g = Spinner ''Checking authentication...'' \<and>
      PublicRoute_render children g = Spinner ''Loading...'') \<and>
   (\<not> isLoading g \<longrightarrow>
      ProtectedRoute_render children g
        = (if \<not> truthy (isAuthenticated g) then Navigate ''/login'' True else children) \<and>
      PublicRoute_render children g
        = (if truthy (isAuthenticated g) then Navigate ''/'' True else children) \<and>
      (\<not> is_navigate children \<longrightarrow>
         (is_navigate (ProtectedRoute_render children g)
            \<longleftrightarrow> \<not> is_navigate (PublicRoute_render children g)) \<and>
         (ProtectedRoute_render children g = children
            \<longleftrightarrow> PublicRoute_render children g \<noteq> children)))"
proof -
  have shape1: "ProtectedRoute_render
      = guard_render ''Checking authentication...'' (\<lambda>a. \<not> a) ''/login''"
    by (intro ext) (simp add: ProtectedRoute_render_def guard_render_def)
  have shape2: "PublicRoute_render = guard_render ''Loading...'' (\<lambda>a. a) ''/''"
    by (intro ext) (simp add: PublicRoute_render_def guard_render_def)
  have rest: "(isLoading g \<longrightarrow>
      ProtectedRoute_render children g = Spinner ''Checking authentication...'' \<and>
      PublicRoute_render children g = Spinner ''Loading...'') \<and>
   (\<not> isLoading g \<longrightarrow>
      ProtectedRoute_render children g
        = (if \<not> truthy (isAuthenticated g) then Navigate ''/login'' True else children) \<and>
      PublicRoute_render children g
        = (if truthy (isAuthenticated g) then Navigate ''/'' True else children) \<and>
      (\<not> is_navigate children \<longrightarrow>
         (is_navigate (ProtectedRoute_render children g)
            \<longleftrightarrow> \<not> is_navigate (PublicRoute_render children g)) \<and>
         (ProtectedRoute_render children g = children
            \<longleftrightarrow> PublicRoute_render children g \<noteq> children)))"
    by (auto simp add: ProtectedRoute_render_def PublicRoute_render_def)
  show ?thesis
    using shape1 shape2 rest PublicRoute_fold_eq [of es g] PublicRoute_run_eq [of es]
    by blast
qed

theorem guards_same_mechanics_witness:
  "PublicRoute_run [Mount, Notify (Some ''uid-1''), ProbeReject ''NetworkError'']
     = ProtectedRoute_run [Mount, Notify (Some ''uid-1''), ProbeReject ''NetworkError''] \<and>
   \<not> isLoading (ProtectedRoute_run [Mount, Notify (Some ''uid-1''), ProbeReject ''NetworkError'']) \<and>
   \<not> is_navigate (Layout (Page Home)) \<and>
   ProtectedRoute_render (Layout (Page Home))
       (ProtectedRoute_run [Mount, Notify (Some ''uid-1''), ProbeReject ''NetworkError''])
     = Navigate ''/login'' True \<and>
   PublicRoute_render (Layout (Page Home))
       (PublicRoute_run [Mount, Notify (Some ''uid-1''), ProbeReject ''NetworkError''])
     = Layout (Page Home) \<and>
   isLoading (ProtectedRoute_run [Mount]) \<and>
   ProtectedRoute_render (Layout (Page Home)) (ProtectedRoute_run [Mount])
     = Spinner ''Checking authentication...'' \<and>
   PublicRoute_render (Layout (Page Home)) (PublicRoute_run [Mount]) = Spinner ''Loading...''"
proof -
  have a: "\<not> isLoading (ProtectedRoute_run [Mount, Notify (Some ''uid-1''), ProbeReject ''NetworkError''])"
    and b: "isAuthenticated (ProtectedRoute_run [Mount, Notify (Some ''uid-1''), ProbeReject ''NetworkError''])
              = Some False"
    and c: "isLoading (ProtectedRoute_run [Mount])"
    by (simp_all add: ProtectedRoute_run_def useState_init_def ProtectedRoute_simps)
  have r1: "ProtectedRoute_render (Layout (Page Home))
       (ProtectedRoute_run [Mount, Notify (Some ''uid-1''), ProbeReject ''NetworkError''])
     = Navigate ''/login'' True"
    and r2: "PublicRoute_render (Layout (Page Home))
       (ProtectedRoute_run [Mount, Notify (Some ''uid-1''), ProbeReject ''NetworkError''])
     = Layout (Page Home)"
    using a b
      guards_same_mechanics
        [of "[Mount, Notify (Some ''uid-1''), ProbeReject ''NetworkError'']"
            "ProtectedRoute_run [Mount, Notify (Some ''uid-1''), ProbeReject ''NetworkError'']"
            "Layout (Page Home)"]
    by simp_all
  have r3: "ProtectedRoute_render (Layout (Page Home)) (ProtectedRoute_run [Mount])
     = Spinner ''Checking authentication...''"
    and r4: "PublicRoute_render (Layout (Page Home)) (ProtectedRoute_run [Mount])
     = Spinner ''Loading...''"
    using c guards_same_mechanics [of "[Mount]" "ProtectedRoute_run [Mount]" "Layout (Page Home)"]
    by simp_all
  show ?thesis
    using a c r1 r2 r3 r4 by (simp add: PublicRoute_run_eq)
qed

subsection \<open>The router\<close>
















end
